theory Spec2Isabelle
  imports Complex_Main
begin

section \<open>JSON values as Python sees them\<close>

text \<open>
  \<^verbatim>\<open>json.loads\<close> produces \<^verbatim>\<open>None\<close>, \<^verbatim>\<open>bool\<close>, \<^verbatim>\<open>int\<close>, \<^verbatim>\<open>float\<close>, \<^verbatim>\<open>str\<close>,
  \<^verbatim>\<open>list\<close> and \<^verbatim>\<open>dict\<close> values. Python integers are unbounded (\<open>int\<close>). A float is
  modelled by its mathematical value, or as one of the non-finite values that
  \<^verbatim>\<open>json.loads\<close> also accepts. A dictionary is an association list read with
  \<open>map_of\<close>: \<^verbatim>\<open>k in d\<close> is \<open>map_of d k \<noteq> None\<close> and \<^verbatim>\<open>d[k]\<close> is the value found.
\<close>

datatype pyfloat = Finite rat | PosInf | NegInf | NaN

datatype json =
    JNull
  | JBool bool
  | JInt int
  | JFloat pyfloat
  | JStr string
  | JList "json list"
  | JDict "(string \<times> json) list"

type_synonym dict = "(string \<times> json) list"

text \<open>
  \<^verbatim>\<open>isinstance\<close> as Python decides it. \<^verbatim>\<open>bool\<close> is a subclass of \<^verbatim>\<open>int\<close>, so
  \<^verbatim>\<open>isinstance(True, int)\<close> and \<^verbatim>\<open>isinstance(True, (str, int))\<close> are both true.
\<close>

fun isinstance_str :: "json \<Rightarrow> bool" where
  "isinstance_str (JStr s) = True"
| "isinstance_str v = False"

fun isinstance_dict :: "json \<Rightarrow> bool" where
  "isinstance_dict (JDict d) = True"
| "isinstance_dict v = False"

fun isinstance_bool :: "json \<Rightarrow> bool" where
  "isinstance_bool (JBool b) = True"
| "isinstance_bool v = False"

fun isinstance_int :: "json \<Rightarrow> bool" where
  "isinstance_int (JInt n) = True"
| "isinstance_int (JBool b) = True"
| "isinstance_int v = False"

definition isinstance_str_int :: "json \<Rightarrow> bool" where
  "isinstance_str_int v = (isinstance_str v \<or> isinstance_int v)"

text \<open>
  Python's \<^verbatim>\<open>v == n\<close> for an integer \<open>n\<close>: numbers are compared by value across
  \<^verbatim>\<open>int\<close>, \<^verbatim>\<open>bool\<close> and \<^verbatim>\<open>float\<close> (\<^verbatim>\<open>True == 1\<close>, \<^verbatim>\<open>1.0 == 1\<close>); every other value
  differs from every integer.
\<close>

fun py_eq_int :: "json \<Rightarrow> int \<Rightarrow> bool" where
  "py_eq_int (JInt m) n = (m = n)"
| "py_eq_int (JBool b) n = ((if b then 1 else 0) = n)"
| "py_eq_int (JFloat (Finite r)) n = (r = of_int n)"
| "py_eq_int v n = False"

text \<open>Python's truth value of a JSON value, as \<^verbatim>\<open>not response["partial"]\<close> reads it.\<close>

fun truthy :: "json \<Rightarrow> bool" where
  "truthy JNull = False"
| "truthy (JBool b) = b"
| "truthy (JInt n) = (n \<noteq> 0)"
| "truthy (JFloat (Finite r)) = (r \<noteq> 0)"
| "truthy (JFloat f) = True"
| "truthy (JStr s) = (s \<noteq> [])"
| "truthy (JList xs) = (xs \<noteq> [])"
| "truthy (JDict d) = (d \<noteq> [])"

section \<open>Protocol validator (mcp/validation/protocol\_validator.py)\<close>

definition sq :: "string \<Rightarrow> string" where
  \<comment> \<open>a field name between single quotes, as the messages print it\<close>
  "sq s = [CHR 0x27] @ s @ [CHR 0x27]"

definition validate_request :: "dict \<Rightarrow> string option" where
  "validate_request request =
    (case map_of request ''jsonrpc'' of
       None \<Rightarrow> Some (''Missing required field: '' @ sq ''jsonrpc'')
     | Some version \<Rightarrow>
    if version \<noteq> JStr ''2.0'' then
      Some (''Invalid '' @ sq ''jsonrpc'' @ '' value: must be '' @ sq ''2.0'')
    else
    (case map_of request ''method'' of
       None \<Rightarrow> Some (''Missing required field: '' @ sq ''method'')
     | Some method \<Rightarrow>
    if \<not> isinstance_str method then
      Some (''Invalid '' @ sq ''method'' @ '' type: must be a string'')
    else
    (case map_of request ''params'' of
       None \<Rightarrow> Some (''Missing required field: '' @ sq ''params'')
     | Some params \<Rightarrow>
    if \<not> isinstance_dict params then
      Some (''Invalid '' @ sq ''params'' @ '' type: must be an object'')
    else
    (case map_of request ''id'' of
       None \<Rightarrow> Some (''Missing required field: '' @ sq ''id'')
     | Some request_id \<Rightarrow>
    if \<not> isinstance_str_int request_id then
      Some (''Invalid '' @ sq ''id'' @ '' type: must be a string or number'')
    else None))))"

definition validate_error_member :: "dict \<Rightarrow> string option" where
  \<comment> \<open>the block \<^verbatim>\<open>if "error" in response: ...\<close> of \<^verbatim>\<open>validate_response\<close>;
      \<open>None\<close> means that the block falls through\<close>
  "validate_error_member response =
    (case map_of response ''error'' of
       None \<Rightarrow> None
     | Some (JDict error) \<Rightarrow>
         (case map_of error ''code'' of
            None \<Rightarrow> Some (''Missing required field in error: '' @ sq ''code'')
          | Some code \<Rightarrow>
         if \<not> isinstance_int code then
           Some (''Invalid error '' @ sq ''code'' @ '' type: must be a number'')
         else
         (case map_of error ''message'' of
            None \<Rightarrow> Some (''Missing required field in error: '' @ sq ''message'')
          | Some message \<Rightarrow>
         if \<not> isinstance_str message then
           Some (''Invalid error '' @ sq ''message'' @ '' type: must be a string'')
         else None))
     | Some other \<Rightarrow> Some (''Invalid '' @ sq ''error'' @ '' type: must be an object''))"

definition validate_response :: "dict \<Rightarrow> string option" where
  "validate_response response =
    (case map_of response ''jsonrpc'' of
       None \<Rightarrow> Some (''Missing required field: '' @ sq ''jsonrpc'')
     | Some version \<Rightarrow>
    if version \<noteq> JStr ''2.0'' then
      Some (''Invalid '' @ sq ''jsonrpc'' @ '' value: must be '' @ sq ''2.0'')
    else
    (case map_of response ''id'' of
       None \<Rightarrow> Some (''Missing required field: '' @ sq ''id'')
     | Some response_id \<Rightarrow>
    if \<not> isinstance_str_int response_id \<and> response_id \<noteq> JNull then
      Some (''Invalid '' @ sq ''id'' @ '' type: must be a string, number, or null'')
    else if map_of response ''result'' = None \<and> map_of response ''error'' = None then
      Some (''Missing required field: either '' @ sq ''result'' @ '' or '' @ sq ''error''
            @ '' must be present'')
    else if map_of response ''error'' \<noteq> None \<and> map_of response ''result'' \<noteq> None then
      Some (''Invalid response: cannot have both '' @ sq ''result'' @ '' and '' @ sq ''error'')
    else
    (case validate_error_member response of
       Some message \<Rightarrow> Some message
     | None \<Rightarrow>
    (case map_of response ''partial'' of
       None \<Rightarrow> None
     | Some partial \<Rightarrow>
    if \<not> isinstance_bool partial then
      Some (''Invalid '' @ sq ''partial'' @ '' type: must be a boolean'')
    else None))))"

section \<open>Message codec (mcp/messages/json\_rpc\_message.py)\<close>

text \<open>
  \<^verbatim>\<open>create_request\<close> builds the envelope, validates it and raises
  \<^verbatim>\<open>ValueError(f"Invalid request: {error}")\<close> when \<^verbatim>\<open>if error:\<close> holds, that is when
  the validator returned a string that is not empty. Python does not enforce the type
  hints, so the three arguments are arbitrary values.
\<close>

datatype value_error = ValueError string

definition create_request :: "json \<Rightarrow> json \<Rightarrow> json \<Rightarrow> value_error + dict" where
  "create_request method params request_id =
    (let request = [(''jsonrpc'', JStr ''2.0''), (''method'', method),
                    (''params'', params), (''id'', request_id)]
     in case validate_request request of
          None \<Rightarrow> Inr request
        | Some error \<Rightarrow>
            if error \<noteq> [] then Inl (ValueError (''Invalid request: '' @ error))
            else Inr request)"

section \<open>Exceptions\<close>

text \<open>
  Every failure that the transport detects is a \<^verbatim>\<open>TransportError\<close>; the constructors of
  \<open>transport_error\<close> are the messages the source builds. The f-strings are kept as their
  arguments: \<open>IdMismatch\<close> carries the expected id and \<^verbatim>\<open>response.get('id')\<close>,
  \<open>InvalidJSON\<close> the raw line. \<open>ErrorSending\<close> and \<open>ErrorStreaming\<close> are what the outer
  handler \<^verbatim>\<open>except Exception\<close> makes of an exception that is not a \<^verbatim>\<open>TransportError\<close>.
\<close>

datatype transport_error =
    NotConnected
  | ConnectionClosed
  | InvalidJSON string
  | IdMismatch int json
  | ErrorSending
  | InvalidJSONStreaming string
  | ErrorStreaming

text \<open>
  The exceptions that leave the transport and the client, each constructor with the
  arguments of the call that builds it in the source. \<^verbatim>\<open>asyncio.CancelledError\<close> derives
  from \<^verbatim>\<open>BaseException\<close>: no \<^verbatim>\<open>except Exception\<close> catches it, and the transport re-raises
  it. \<^verbatim>\<open>AttributeError\<close> is what \<^verbatim>\<open>error.get\<close> raises when the \<^verbatim>\<open>error\<close> member of a
  response is not a mapping. \<open>exception_class\<close> is the class of the raised object and
  \<open>error_code\<close> its \<^verbatim>\<open>code\<close> attribute (mcp/messages/exceptions.py, error\_codes.py).
\<close>

datatype message =
    Text string                        \<comment> \<open>a literal of the source\<close>
  | FromServer json                    \<comment> \<open>\<^verbatim>\<open>error.get("message", ...)\<close>\<close>
  | TransportText transport_error      \<comment> \<open>\<^verbatim>\<open>f"Transport error: {e.message}"\<close>\<close>
  | Unexpected                         \<comment> \<open>\<^verbatim>\<open>f"Unexpected error: {str(e)}"\<close>\<close>

datatype error_data =
    Data json                          \<comment> \<open>\<^verbatim>\<open>error.get("data")\<close>, or \<open>JNull\<close> when not given\<close>
  | Cause transport_error              \<comment> \<open>\<^verbatim>\<open>{"cause": str(e.cause) if e.cause else None}\<close>\<close>

datatype exn =
    TransportError transport_error
  | CancelledError
  | AttributeError
  | MCPProtocolError message json error_data
  | InitializationError message error_data
  | InvalidToolError string error_data
  | ToolExecutionError string message error_data

datatype exn_class =
    CTransportError | CCancelledError | CAttributeError
  | CMCPProtocolError | CInitializationError | CInvalidToolError | CToolExecutionError

fun exception_class :: "exn \<Rightarrow> exn_class" where
  "exception_class (TransportError e) = CTransportError"
| "exception_class CancelledError = CCancelledError"
| "exception_class AttributeError = CAttributeError"
| "exception_class (MCPProtocolError m c d) = CMCPProtocolError"
| "exception_class (InitializationError m d) = CInitializationError"
| "exception_class (InvalidToolError tool d) = CInvalidToolError"
| "exception_class (ToolExecutionError tool m d) = CToolExecutionError"

fun error_code :: "exn \<Rightarrow> json option" where
  "error_code (MCPProtocolError m c d) = Some c"
| "error_code (InitializationError m d) = Some (JInt 1000)"
| "error_code (InvalidToolError tool d) = Some (JInt 1100)"
| "error_code (ToolExecutionError tool m d) = Some (JInt 1101)"
| "error_code e = None"

fun isinstance_MCPProtocolError :: "exn \<Rightarrow> bool" where
  "isinstance_MCPProtocolError (MCPProtocolError m c d) = True"
| "isinstance_MCPProtocolError (InitializationError m d) = True"
| "isinstance_MCPProtocolError (InvalidToolError tool d) = True"
| "isinstance_MCPProtocolError (ToolExecutionError tool m d) = True"
| "isinstance_MCPProtocolError e = False"

section \<open>Line-framed stdio transport (mcp/transport/stdio/stdio\_transport.py)\<close>

text \<open>
  What one \<^verbatim>\<open>await self.reader.readline()\<close> makes of the source, after \<^verbatim>\<open>decode\<close>,
  \<^verbatim>\<open>strip\<close> and \<^verbatim>\<open>json.loads\<close>: bytes that do not decode, text that is not JSON (with
  the decoded line), the parsed value, or the cancellation of the task while it waits.
  End of stream (\<^verbatim>\<open>readline\<close> returning \<^verbatim>\<open>b""\<close>) is the empty source.
\<close>

datatype line = Undecodable | Malformed string | Parsed json | CancelledRead

text \<open>
  What awaiting a coroutine of the environment does, and whether the child is still
  running (\<^verbatim>\<open>poll()\<close> is \<^verbatim>\<open>None\<close>) or has exited.
\<close>

datatype outcome = Returns | Raises | Cancelled

datatype process = Running | Exited

text \<open>
  The attributes of the object: \<open>reader\<close> and \<open>writer\<close> say whether the attribute is set
  (not \<^verbatim>\<open>None\<close>); \<open>has_drain\<close> says whether the object stored in \<^verbatim>\<open>self.writer\<close> has a
  \<^verbatim>\<open>drain\<close> method; \<open>request_id\<close> is the counter; \<open>process\<close> the child, if one is owned.
  The environment: \<open>sink\<close> holds the envelopes that were given to \<^verbatim>\<open>writer.write\<close>, oldest
  first, one JSON line each; \<open>source\<close> what the reads will deliver before the peer closes
  its end; \<open>drain\<close> what awaiting \<^verbatim>\<open>writer.drain()\<close> does when the method exists;
  \<open>pipe_setup\<close> what awaiting \<^verbatim>\<open>connect_read_pipe\<close> and \<^verbatim>\<open>connect_write_pipe\<close> does;
  \<open>close_raises\<close> whether \<^verbatim>\<open>writer.close()\<close> raises; \<open>sleep_cancelled\<close> whether the task
  is cancelled during \<^verbatim>\<open>asyncio.sleep(0.1)\<close>; \<open>ignores_terminate\<close> whether the child is
  still running 100 ms after \<^verbatim>\<open>terminate\<close>. \<^verbatim>\<open>writer.write\<close> itself, \<^verbatim>\<open>terminate\<close> and
  \<^verbatim>\<open>kill\<close> are taken to return, and a killed child to exit.
\<close>

record stdio_transport =
  reader :: bool
  writer :: bool
  has_drain :: bool
  request_id :: int
  process :: "process option"
  sink :: "dict list"
  source :: "line list"
  drain :: outcome
  pipe_setup :: outcome
  close_raises :: bool
  sleep_cancelled :: bool
  ignores_terminate :: bool

definition new_transport :: "line list \<Rightarrow> stdio_transport" where
  \<comment> \<open>\<^verbatim>\<open>__init__\<close> without a process, in an environment that will deliver the given lines\<close>
  "new_transport ls =
    \<lparr>reader = False, writer = False, has_drain = False, request_id = 0, process = None,
     sink = [], source = ls, drain = Returns, pipe_setup = Returns,
     close_raises = False, sleep_cancelled = False, ignores_terminate = False\<rparr>"

text \<open>
  \<^verbatim>\<open>connect\<close> assigns the reader, then sets up the two pipes and stores as
  \<^verbatim>\<open>self.writer\<close> the transport that \<^verbatim>\<open>connect_write_pipe\<close> returns. That object has
  \<^verbatim>\<open>write\<close> and \<^verbatim>\<open>close\<close> but no \<^verbatim>\<open>drain\<close>. A failure of the setup is caught and
  reported as \<^verbatim>\<open>False\<close>; a cancellation is not caught.
\<close>

definition connect :: "stdio_transport \<Rightarrow> (exn + bool) \<times> stdio_transport" where
  "connect t =
    (case pipe_setup t of
       Returns \<Rightarrow> (Inr True, t\<lparr>reader := True, writer := True, has_drain := False\<rparr>)
     | Raises \<Rightarrow> (Inr False, t\<lparr>reader := True\<rparr>)
     | Cancelled \<Rightarrow> (Inl CancelledError, t\<lparr>reader := True\<rparr>))"

text \<open>
  \<^verbatim>\<open>disconnect\<close>: when \<^verbatim>\<open>writer.close()\<close> raises, the outer handler returns \<^verbatim>\<open>False\<close>
  and both attributes are still set. Otherwise both are cleared, and a child that is
  still running is sent \<^verbatim>\<open>terminate\<close>, given 100 ms, and killed if it has not exited;
  a cancellation during the sleep leaves \<^verbatim>\<open>disconnect\<close> as \<^verbatim>\<open>CancelledError\<close>.
\<close>

definition disconnect :: "stdio_transport \<Rightarrow> (exn + bool) \<times> stdio_transport" where
  "disconnect t =
    (if writer t then
       if close_raises t then (Inr False, t)
       else
         let t1 = t\<lparr>reader := False, writer := False\<rparr>
         in case process t1 of
              Some Running \<Rightarrow>
                if sleep_cancelled t1 then
                  (Inl CancelledError,
                   t1\<lparr>process := Some (if ignores_terminate t1 then Running else Exited)\<rparr>)
                else (Inr True, t1\<lparr>process := Some Exited\<rparr>)
            | other \<Rightarrow> (Inr True, t1)
     else (Inr True, t))"

definition dict_get :: "dict \<Rightarrow> string \<Rightarrow> json" where
  \<comment> \<open>\<^verbatim>\<open>d.get(k)\<close>, Python's \<^verbatim>\<open>None\<close> written \<open>JNull\<close>\<close>
  "dict_get d k = (case map_of d k of None \<Rightarrow> JNull | Some v \<Rightarrow> v)"

definition dict_get_default :: "dict \<Rightarrow> string \<Rightarrow> json \<Rightarrow> json" where
  \<comment> \<open>\<^verbatim>\<open>d.get(k, default)\<close>\<close>
  "dict_get_default d k dflt = (case map_of d k of None \<Rightarrow> dflt | Some v \<Rightarrow> v)"

text \<open>
  \<^verbatim>\<open>send_message\<close>: the connection check, the counter, the envelope, the write, the
  drain, one read. The write comes before the drain, so the envelope has been written
  when the drain fails. A writer without \<^verbatim>\<open>drain\<close> raises \<^verbatim>\<open>AttributeError\<close> there,
  which the outer handler wraps like any other exception; a cancellation is re-raised.
  A parsed value that is not a mapping makes the membership test, the subscript or
  \<^verbatim>\<open>response.get\<close> raise, which the outer handler wraps too.
\<close>

definition send_message ::
  "string \<Rightarrow> dict \<Rightarrow> stdio_transport \<Rightarrow> (exn + dict) \<times> stdio_transport" where
  "send_message method params t =
    (if \<not> writer t \<or> \<not> reader t then (Inl (TransportError NotConnected), t)
     else
       let rid = request_id t + 1;
           t1 = t\<lparr>request_id := rid\<rparr>
       in case create_request (JStr method) (JDict params) (JInt rid) of
            Inl e \<Rightarrow> (Inl (TransportError ErrorSending), t1)
          | Inr request \<Rightarrow>
              let t2 = t1\<lparr>sink := sink t1 @ [request]\<rparr>
              in if \<not> has_drain t2 then (Inl (TransportError ErrorSending), t2)
                 else (case drain t2 of
                   Raises \<Rightarrow> (Inl (TransportError ErrorSending), t2)
                 | Cancelled \<Rightarrow> (Inl CancelledError, t2)
                 | Returns \<Rightarrow>
                    (case source t2 of
                       [] \<Rightarrow> (Inl (TransportError ConnectionClosed), t2)
                     | l # ls \<Rightarrow>
                         let t3 = t2\<lparr>source := ls\<rparr>
                         in (case l of
                              CancelledRead \<Rightarrow> (Inl CancelledError, t3)
                            | Undecodable \<Rightarrow> (Inl (TransportError ErrorSending), t3)
                            | Malformed raw \<Rightarrow> (Inl (TransportError (InvalidJSON raw)), t3)
                            | Parsed (JDict response) \<Rightarrow>
                                (case map_of response ''id'' of
                                   None \<Rightarrow>
                                     (Inl (TransportError
                                        (IdMismatch rid (dict_get response ''id''))), t3)
                                 | Some i \<Rightarrow>
                                     if \<not> py_eq_int i rid
                                     then (Inl (TransportError
                                             (IdMismatch rid (dict_get response ''id''))), t3)
                                     else (Inr response, t3))
                            | Parsed other \<Rightarrow> (Inl (TransportError ErrorSending), t3)))))"

text \<open>
  The streaming loop, run until the generator ends: the envelopes it yields, how it ends,
  and what is left unread. Each turn of the loop reads once and the source is finite, so
  the loop ends; a peer that keeps the stream open without sending is outside this
  model. The call of \<^verbatim>\<open>send_streaming_message\<close> stands for the run of the generator's
  body.
\<close>

datatype ending = Completed | Raised exn

definition terminal :: "dict \<Rightarrow> bool" where
  \<comment> \<open>\<^verbatim>\<open>"partial" not in response or not response["partial"]\<close>\<close>
  "terminal response =
    (case map_of response ''partial'' of None \<Rightarrow> True | Some p \<Rightarrow> \<not> truthy p)"

definition id_matches :: "dict \<Rightarrow> int \<Rightarrow> bool" where
  \<comment> \<open>the negation of \<^verbatim>\<open>"id" not in response or response["id"] != request_id\<close>\<close>
  "id_matches response rid =
    (case map_of response ''id'' of None \<Rightarrow> False | Some i \<Rightarrow> py_eq_int i rid)"

fun stream_loop :: "int \<Rightarrow> line list \<Rightarrow> (dict list \<times> ending) \<times> line list" where
  "stream_loop rid [] = (([], Completed), [])"
| "stream_loop rid (CancelledRead # ls) = (([], Raised CancelledError), ls)"
| "stream_loop rid (Undecodable # ls) = (([], Raised (TransportError ErrorStreaming)), ls)"
| "stream_loop rid (Malformed raw # ls) =
    (([], Raised (TransportError (InvalidJSONStreaming raw))), ls)"
| "stream_loop rid (Parsed (JDict response) # ls) =
    (if \<not> id_matches response rid then stream_loop rid ls
     else if terminal response then (([response], Completed), ls)
     else case stream_loop rid ls of
            ((ys, e), rest) \<Rightarrow> ((response # ys, e), rest))"
| "stream_loop rid (Parsed other # ls) = (([], Raised (TransportError ErrorStreaming)), ls)"

definition send_streaming_message ::
  "string \<Rightarrow> dict \<Rightarrow> stdio_transport \<Rightarrow> (dict list \<times> ending) \<times> stdio_transport" where
  "send_streaming_message method params t =
    (if \<not> writer t \<or> \<not> reader t then (([], Raised (TransportError NotConnected)), t)
     else
       let rid = request_id t + 1;
           t1 = t\<lparr>request_id := rid\<rparr>
       in case create_request (JStr method) (JDict params) (JInt rid) of
            Inl e \<Rightarrow> (([], Raised (TransportError ErrorStreaming)), t1)
          | Inr request \<Rightarrow>
              let t2 = t1\<lparr>sink := sink t1 @ [request]\<rparr>
              in if \<not> has_drain t2 then (([], Raised (TransportError ErrorStreaming)), t2)
                 else (case drain t2 of
                   Raises \<Rightarrow> (([], Raised (TransportError ErrorStreaming)), t2)
                 | Cancelled \<Rightarrow> (([], Raised CancelledError), t2)
                 | Returns \<Rightarrow>
                    (case stream_loop rid (source t2) of
                       (out, rest) \<Rightarrow> (out, t2\<lparr>source := rest\<rparr>))))"

section \<open>Protocol client (mcp/client/standard\_protocol\_client.py)\<close>

record client =
  transport :: stdio_transport
  capabilities :: "json option"

definition new_client :: "stdio_transport \<Rightarrow> client" where
  "new_client t = \<lparr>transport = t, capabilities = None\<rparr>"

definition initialize_params :: dict where
  "initialize_params =
    [(''clientInfo'', JDict [(''name'', JStr ''mcp-cli''), (''version'', JStr ''1.0.0'')]),
     (''capabilities'', JDict [(''tools'', JBool True), (''prompts'', JBool True),
                               (''resources'', JBool True)])]"

definition initialization_message :: "json \<Rightarrow> message" where
  \<comment> \<open>\<^verbatim>\<open>message or ErrorCodes.get_message(ErrorCodes.INITIALIZATION_FAILED)\<close>\<close>
  "initialization_message m = (if truthy m then FromServer m else Text ''Initialization failed'')"

text \<open>
  \<^verbatim>\<open>initialize\<close>: the whole body is in one \<^verbatim>\<open>try\<close>. \<open>initialize_handler\<close> is what its
  two handlers make of an exception raised there: a \<^verbatim>\<open>TransportError\<close> becomes an
  \<^verbatim>\<open>InitializationError\<close>, an \<^verbatim>\<open>MCPProtocolError\<close> is raised again, any other
  \<^verbatim>\<open>Exception\<close> becomes an \<^verbatim>\<open>InitializationError\<close>, and a cancellation is not caught.
  The result of the server is stored in \<open>capabilities\<close>.
\<close>

fun initialize_handler :: "exn \<Rightarrow> exn" where
  "initialize_handler (TransportError e) = InitializationError (TransportText e) (Cause e)"
| "initialize_handler CancelledError = CancelledError"
| "initialize_handler e =
     (if isinstance_MCPProtocolError e then e
      else InitializationError Unexpected (Data JNull))"

definition initialize :: "client \<Rightarrow> (exn + json) \<times> client" where
  "initialize c =
    (case connect (transport c) of
       (Inl e, t0) \<Rightarrow> (Inl (initialize_handler e), c\<lparr>transport := t0\<rparr>)
     | (Inr success, t0) \<Rightarrow>
    if \<not> success then
      (Inl (initialize_handler
              (InitializationError (Text ''Failed to connect to server'') (Data JNull))),
       c\<lparr>transport := t0\<rparr>)
    else
    (case send_message ''initialize'' initialize_params t0 of
       (Inl e, t1) \<Rightarrow> (Inl (initialize_handler e), c\<lparr>transport := t1\<rparr>)
     | (Inr response, t1) \<Rightarrow>
         (case map_of response ''result'' of
            Some result \<Rightarrow> (Inr result, c\<lparr>transport := t1, capabilities := Some result\<rparr>)
          | None \<Rightarrow>
              (case map_of response ''error'' of
                 Some (JDict error) \<Rightarrow>
                   (Inl (initialize_handler
                           (InitializationError
                              (initialization_message
                                 (dict_get_default error ''message''
                                    (JStr ''Unknown initialization error'')))
                              (Data (dict_get error ''data'')))),
                    c\<lparr>transport := t1\<rparr>)
               | Some other \<Rightarrow>
                   (Inl (initialize_handler AttributeError), c\<lparr>transport := t1\<rparr>)
               | None \<Rightarrow>
                   (Inl (initialize_handler
                           (InitializationError (Text ''Invalid response from server'')
                              (Data JNull))),
                    c\<lparr>transport := t1\<rparr>)))))"

text \<open>
  \<^verbatim>\<open>call_tool\<close>, \<^verbatim>\<open>get_prompt\<close> and \<^verbatim>\<open>get_resource\<close> catch \<^verbatim>\<open>TransportError\<close> only:
  any other exception of the send, and the \<^verbatim>\<open>AttributeError\<close> of \<^verbatim>\<open>error.get\<close> on an
  \<^verbatim>\<open>error\<close> member that is not a mapping, reach the caller.
\<close>

definition call_tool :: "string \<Rightarrow> dict \<Rightarrow> client \<Rightarrow> (exn + json) \<times> client" where
  "call_tool tool_name params c =
    (case send_message ''tools/call''
            [(''name'', JStr tool_name), (''parameters'', JDict params)] (transport c) of
       (Inl (TransportError e), t1) \<Rightarrow>
         (Inl (ToolExecutionError tool_name (TransportText e) (Cause e)), c\<lparr>transport := t1\<rparr>)
     | (Inl e, t1) \<Rightarrow> (Inl e, c\<lparr>transport := t1\<rparr>)
     | (Inr response, t1) \<Rightarrow>
         (case map_of response ''result'' of
            Some result \<Rightarrow> (Inr result, c\<lparr>transport := t1\<rparr>)
          | None \<Rightarrow>
              (case map_of response ''error'' of
                 Some (JDict error) \<Rightarrow>
                   if py_eq_int (dict_get_default error ''code'' (JInt 0)) 1100
                   then (Inl (InvalidToolError tool_name (Data (dict_get error ''data''))),
                         c\<lparr>transport := t1\<rparr>)
                   else (Inl (ToolExecutionError tool_name
                                (FromServer (dict_get_default error ''message''
                                               (JStr ''Unknown error'')))
                                (Data (dict_get error ''data''))),
                         c\<lparr>transport := t1\<rparr>)
               | Some other \<Rightarrow> (Inl AttributeError, c\<lparr>transport := t1\<rparr>)
               | None \<Rightarrow>
                   (Inl (ToolExecutionError tool_name (Text ''Invalid response from server'')
                           (Data JNull)),
                    c\<lparr>transport := t1\<rparr>))))"

definition request_params :: "string \<Rightarrow> dict option \<Rightarrow> dict" where
  \<comment> \<open>\<^verbatim>\<open>{"name": name}\<close>, with \<^verbatim>\<open>"parameters"\<close> added when \<^verbatim>\<open>if params:\<close> holds\<close>
  "request_params name params =
    (case params of
       None \<Rightarrow> [(''name'', JStr name)]
     | Some p \<Rightarrow>
         if p \<noteq> [] then [(''name'', JStr name), (''parameters'', JDict p)]
         else [(''name'', JStr name)])"

definition get_named ::
  "string \<Rightarrow> string \<Rightarrow> dict option \<Rightarrow> client \<Rightarrow> (exn + json) \<times> client" where
  \<comment> \<open>the body that \<^verbatim>\<open>get_prompt\<close> and \<^verbatim>\<open>get_resource\<close> share, up to the method name\<close>
  "get_named method name params c =
    (case send_message method (request_params name params) (transport c) of
       (Inl (TransportError e), t1) \<Rightarrow>
         (Inl (MCPProtocolError (TransportText e) (JInt 0) (Cause e)), c\<lparr>transport := t1\<rparr>)
     | (Inl e, t1) \<Rightarrow> (Inl e, c\<lparr>transport := t1\<rparr>)
     | (Inr response, t1) \<Rightarrow>
         (case map_of response ''result'' of
            Some result \<Rightarrow> (Inr result, c\<lparr>transport := t1\<rparr>)
          | None \<Rightarrow>
              (case map_of response ''error'' of
                 Some (JDict error) \<Rightarrow>
                   (Inl (MCPProtocolError
                           (FromServer (dict_get_default error ''message''
                                          (JStr ''Unknown error'')))
                           (dict_get_default error ''code'' (JInt 0))
                           (Data (dict_get error ''data''))),
                    c\<lparr>transport := t1\<rparr>)
               | Some other \<Rightarrow> (Inl AttributeError, c\<lparr>transport := t1\<rparr>)
               | None \<Rightarrow>
                   (Inl (MCPProtocolError (Text ''Invalid response from server'') (JInt 0)
                           (Data JNull)),
                    c\<lparr>transport := t1\<rparr>))))"

definition get_prompt :: "string \<Rightarrow> dict option \<Rightarrow> client \<Rightarrow> (exn + json) \<times> client" where
  "get_prompt prompt_name params c = get_named ''prompts/get'' prompt_name params c"

definition get_resource :: "string \<Rightarrow> dict option \<Rightarrow> client \<Rightarrow> (exn + json) \<times> client" where
  "get_resource resource_name params c = get_named ''resources/get'' resource_name params c"

text \<open>
  \<^verbatim>\<open>shutdown\<close>: the send and the disconnect are consecutive statements of one \<^verbatim>\<open>try\<close>
  block. The handler \<^verbatim>\<open>except Exception\<close> logs and returns \<^verbatim>\<open>False\<close>; it does not catch
  \<^verbatim>\<open>CancelledError\<close>. The boolean that \<^verbatim>\<open>disconnect\<close> returns is not read.
\<close>

definition shutdown :: "client \<Rightarrow> (exn + bool) \<times> client" where
  "shutdown c =
    (case send_message ''shutdown'' [] (transport c) of
       (Inl e, t1) \<Rightarrow>
         (if e = CancelledError then Inl CancelledError else Inr False, c\<lparr>transport := t1\<rparr>)
     | (Inr response, t1) \<Rightarrow>
         (case disconnect t1 of
            (Inl e, t2) \<Rightarrow>
              (if e = CancelledError then Inl CancelledError else Inr False,
               c\<lparr>transport := t2\<rparr>)
          | (Inr disconnected, t2) \<Rightarrow> (Inr True, c\<lparr>transport := t2\<rparr>)))"

section \<open>Vocabulary for the statements\<close>

text \<open>
  The envelope that \<open>create_request\<close> builds for a string method, a mapping and an
  integer id; the ids of the written envelopes; an envelope that the streaming loop
  skips; and a caller that performs any sequence of operations on one transport
  instance, assigns its reader and writer, and lives in a changing environment.
\<close>

definition request_envelope :: "string \<Rightarrow> dict \<Rightarrow> int \<Rightarrow> dict" where
  "request_envelope method params rid =
     [(''jsonrpc'', JStr ''2.0''), (''method'', JStr method), (''params'', JDict params),
      (''id'', JInt rid)]"

definition wire_ids :: "stdio_transport \<Rightarrow> json list" where
  "wire_ids t = map (\<lambda>request. dict_get request ''id'') (sink t)"


text \<open>
  A transport whose reader and writer were assigned by the caller: a stream reader that
  will deliver the given lines and a stream writer, whose \<^verbatim>\<open>drain\<close> returns. No call of
  \<open>connect\<close> leads to such a state.
\<close>

definition streams :: "line list \<Rightarrow> stdio_transport" where
  "streams ls =
    \<lparr>reader = True, writer = True, has_drain = True, request_id = 0, process = None,
     sink = [], source = ls, drain = Returns, pipe_setup = Returns,
     close_raises = False, sleep_cancelled = False, ignores_terminate = False\<rparr>"

datatype call =
    Connect
  | Disconnect
  | Send string dict
  | Stream string dict
  | Assign bool bool bool
  | Environment outcome outcome bool bool bool "line list"

fun perform :: "call \<Rightarrow> stdio_transport \<Rightarrow> stdio_transport" where
  "perform Connect t = snd (connect t)"
| "perform Disconnect t = snd (disconnect t)"
| "perform (Send method params) t = snd (send_message method params t)"
| "perform (Stream method params) t = snd (send_streaming_message method params t)"
| "perform (Assign r w d) t = t\<lparr>reader := r, writer := w, has_drain := d\<rparr>"
| "perform (Environment dr ps cl sl ig ls) t =
     t\<lparr>drain := dr, pipe_setup := ps, close_raises := cl, sleep_cancelled := sl,
       ignores_terminate := ig, source := source t @ ls\<rparr>"

definition run :: "call list \<Rightarrow> stdio_transport \<Rightarrow> stdio_transport" where
  "run calls t = fold perform calls t"

definition ids_invariant :: "stdio_transport \<Rightarrow> bool" where
  "ids_invariant t \<longleftrightarrow>
     0 \<le> request_id t \<and>
     (\<exists>ids. wire_ids t = map JInt ids \<and> sorted_wrt (<) ids \<and>
            (\<forall>n \<in> set ids. 1 \<le> n \<and> n \<le> request_id t))"

section \<open>The validator and the codec\<close>

lemma validate_request_not_empty: "validate_request r \<noteq> Some []"
  by (simp add: validate_request_def sq_def split: option.splits)

lemma validate_request_None_iff:
  "validate_request r = None \<longleftrightarrow>
     map_of r ''jsonrpc'' = Some (JStr ''2.0'') \<and>
     (\<exists>m. map_of r ''method'' = Some m \<and> isinstance_str m) \<and>
     (\<exists>p. map_of r ''params'' = Some p \<and> isinstance_dict p) \<and>
     (\<exists>i. map_of r ''id'' = Some i \<and> isinstance_str_int i)"
  by (auto simp add: validate_request_def split: option.splits)

lemma create_request_typed:
  "create_request (JStr m) (JDict p) (JInt n) =
     Inr [(''jsonrpc'', JStr ''2.0''), (''method'', JStr m), (''params'', JDict p),
          (''id'', JInt n)]"
  by (simp add: create_request_def validate_request_def isinstance_str_int_def)

text \<open>
  The rules of \<open>validate_request\<close> are tried in the order of the source, and the first
  one that fails gives the message: each lemma assumes that the earlier rules hold.
\<close>

lemma validate_request_rule1:
  "map_of r ''jsonrpc'' \<noteq> Some (JStr ''2.0'') \<Longrightarrow>
   validate_request r =
     (if map_of r ''jsonrpc'' = None then Some (''Missing required field: '' @ sq ''jsonrpc'')
      else Some (''Invalid '' @ sq ''jsonrpc'' @ '' value: must be '' @ sq ''2.0''))"
  by (auto simp add: validate_request_def split: option.splits)

lemma validate_request_rule2:
  "map_of r ''jsonrpc'' = Some (JStr ''2.0'') \<Longrightarrow>
   \<not> (\<exists>m. map_of r ''method'' = Some (JStr m)) \<Longrightarrow>
   validate_request r =
     (if map_of r ''method'' = None then Some (''Missing required field: '' @ sq ''method'')
      else Some (''Invalid '' @ sq ''method'' @ '' type: must be a string''))"
  by (auto simp add: validate_request_def split: option.splits json.splits
        elim: isinstance_str.elims)

lemma validate_request_rule3:
  "map_of r ''jsonrpc'' = Some (JStr ''2.0'') \<Longrightarrow>
   map_of r ''method'' = Some (JStr m) \<Longrightarrow>
   \<not> (\<exists>p. map_of r ''params'' = Some (JDict p)) \<Longrightarrow>
   validate_request r =
     (if map_of r ''params'' = None then Some (''Missing required field: '' @ sq ''params'')
      else Some (''Invalid '' @ sq ''params'' @ '' type: must be an object''))"
  by (auto simp add: validate_request_def split: option.splits json.splits
        elim: isinstance_dict.elims)

lemma validate_request_rule4:
  "map_of r ''jsonrpc'' = Some (JStr ''2.0'') \<Longrightarrow>
   map_of r ''method'' = Some (JStr m) \<Longrightarrow>
   map_of r ''params'' = Some (JDict p) \<Longrightarrow>
   validate_request r =
     (case map_of r ''id'' of
        None \<Rightarrow> Some (''Missing required field: '' @ sq ''id'')
      | Some i \<Rightarrow>
          if isinstance_str_int i then None
          else Some (''Invalid '' @ sq ''id'' @ '' type: must be a string or number''))"
  by (auto simp add: validate_request_def split: option.splits)

text \<open>
  Claim C5. The structural rules of \<open>validate_request\<close> end with "id present and
  string-or-integer", and no error is returned exactly when all rules hold. The
  repository's test \<^verbatim>\<open>test_validate_invalid_requests\<close> expects the request with
  \<^verbatim>\<open>"id": True\<close> to be rejected with the message of the id rule. The source tests
  \<^verbatim>\<open>isinstance(request["id"], (str, int))\<close>, which holds for a boolean, so this request
  is accepted.
\<close>

theorem validate_request_accepts_boolean_id:
  "validate_request
     [(''jsonrpc'', JStr ''2.0''), (''method'', JStr ''ping''), (''params'', JDict []),
      (''id'', JBool True)] = None"
  by (simp add: validate_request_def isinstance_str_int_def)

text \<open>
  Claim C6. \<open>validate_response\<close> rejects every response that contains both \<^verbatim>\<open>result\<close>
  and \<^verbatim>\<open>error\<close> and every response that contains neither; a response that passes
  carries exactly one of the two.
\<close>

theorem validate_response_exactly_one:
  "(validate_response r = None \<longrightarrow>
      (map_of r ''result'' \<noteq> None) \<noteq> (map_of r ''error'' \<noteq> None)) \<and>
   (map_of r ''result'' \<noteq> None \<and> map_of r ''error'' \<noteq> None \<longrightarrow>
      validate_response r \<noteq> None) \<and>
   (map_of r ''result'' = None \<and> map_of r ''error'' = None \<longrightarrow>
      validate_response r \<noteq> None)"
  by (auto simp add: validate_response_def split: option.splits if_splits)

theorem validate_response_exactly_one_witness:
  "validate_response [(''jsonrpc'', JStr ''2.0''), (''result'', JDict []), (''id'', JInt 1)]
     = None \<and>
   map_of [(''jsonrpc'', JStr ''2.0''), (''result'', JDict []), (''id'', JInt 1)] ''result''
     \<noteq> None \<and>
   map_of [(''jsonrpc'', JStr ''2.0''), (''result'', JDict []), (''id'', JInt 1)] ''error''
     = None \<and>
   validate_response
     [(''jsonrpc'', JStr ''2.0''), (''result'', JDict []), (''error'', JDict []),
      (''id'', JInt 1)] \<noteq> None \<and>
   validate_response [(''jsonrpc'', JStr ''2.0''), (''id'', JInt 1)] \<noteq> None"
  using
    validate_response_exactly_one
      [of "[(''jsonrpc'', JStr ''2.0''), (''result'', JDict []), (''id'', JInt 1)]"]
    validate_response_exactly_one
      [of "[(''jsonrpc'', JStr ''2.0''), (''result'', JDict []), (''error'', JDict []),
            (''id'', JInt 1)]"]
    validate_response_exactly_one [of "[(''jsonrpc'', JStr ''2.0''), (''id'', JInt 1)]"]
  by (simp add: validate_response_def validate_error_member_def isinstance_str_int_def)

text \<open>
  Claim C7. \<open>create_request\<close> raises its construction error exactly when
  \<open>validate_request\<close> rejects the envelope it builds. For a method that is a string,
  params that are a mapping and an id that is a string or an integer, construction
  succeeds, returns that envelope, and validating it returns no error.
\<close>

theorem create_request_self_validates:
  "((\<exists>e. create_request method params ident = Inl e) \<longleftrightarrow>
      validate_request [(''jsonrpc'', JStr ''2.0''), (''method'', method),
                        (''params'', params), (''id'', ident)] \<noteq> None) \<and>
   (isinstance_str method \<and> isinstance_dict params \<and>
      (isinstance_str ident \<or> (\<exists>n. ident = JInt n)) \<longrightarrow>
      create_request method params ident =
        Inr [(''jsonrpc'', JStr ''2.0''), (''method'', method),
             (''params'', params), (''id'', ident)] \<and>
      validate_request [(''jsonrpc'', JStr ''2.0''), (''method'', method),
                        (''params'', params), (''id'', ident)] = None)"
proof -
  let ?env = "[(''jsonrpc'', JStr ''2.0''), (''method'', method),
               (''params'', params), (''id'', ident)]"
  have raises: "(\<exists>e. create_request method params ident = Inl e) \<longleftrightarrow>
      validate_request ?env \<noteq> None"
  proof (cases "validate_request ?env")
    case None
    then show ?thesis by (simp add: create_request_def)
  next
    case (Some msg)
    with validate_request_not_empty [of ?env] have "msg \<noteq> []" by auto
    with Some show ?thesis by (simp add: create_request_def)
  qed
  have valid: "validate_request ?env = None"
    if "isinstance_str method" "isinstance_dict params"
       "isinstance_str ident \<or> (\<exists>n. ident = JInt n)"
    using that by (auto simp add: validate_request_None_iff isinstance_str_int_def)
  have built: "create_request method params ident = Inr ?env"
    if "validate_request ?env = None"
    using that by (simp add: create_request_def)
  show ?thesis
  proof (intro conjI impI)
    show "(\<exists>e. create_request method params ident = Inl e) \<longleftrightarrow>
      validate_request ?env \<noteq> None" by (rule raises)
  next
    assume "isinstance_str method \<and> isinstance_dict params \<and>
      (isinstance_str ident \<or> (\<exists>n. ident = JInt n))"
    then show "validate_request ?env = None" by (intro valid) simp_all
    then show "create_request method params ident = Inr ?env" by (rule built)
  qed
qed

theorem create_request_self_validates_witness:
  "isinstance_str (JStr ''ping'') \<and> isinstance_dict (JDict []) \<and>
   create_request (JStr ''ping'') (JDict []) (JInt 1) =
     Inr [(''jsonrpc'', JStr ''2.0''), (''method'', JStr ''ping''),
          (''params'', JDict []), (''id'', JInt 1)] \<and>
   validate_request [(''jsonrpc'', JStr ''2.0''), (''method'', JStr ''ping''),
                     (''params'', JDict []), (''id'', JInt 1)] = None \<and>
   (\<exists>e. create_request (JInt 5) (JDict []) (JInt 1) = Inl e)"
proof -
  have h: "isinstance_str (JStr ''ping'') \<and> isinstance_dict (JDict []) \<and>
      (isinstance_str (JInt 1) \<or> (\<exists>n. JInt 1 = JInt n))" by simp
  have bad: "validate_request [(''jsonrpc'', JStr ''2.0''), (''method'', JInt 5),
                        (''params'', JDict []), (''id'', JInt 1)] \<noteq> None"
    by (simp add: validate_request_def)
  show ?thesis
    using h bad
      create_request_self_validates [of "JStr ''ping''" "JDict []" "JInt 1"]
      create_request_self_validates [of "JInt 5" "JDict []" "JInt 1"]
    by simp
qed

section \<open>The transport\<close>

lemma send_message_state:
  "snd (send_message method params t) =
    (if \<not> writer t \<or> \<not> reader t then t
     else if has_drain t \<and> drain t = Returns then
       t\<lparr>request_id := request_id t + 1,
         sink := sink t @ [request_envelope method params (request_id t + 1)],
         source := tl (source t)\<rparr>
     else
       t\<lparr>request_id := request_id t + 1,
         sink := sink t @ [request_envelope method params (request_id t + 1)]\<rparr>)"
  by (simp add: send_message_def create_request_typed request_envelope_def Let_def
        split: list.splits line.splits json.splits option.splits outcome.splits)

lemma send_message_result:
  "fst (send_message method params t) = Inr response \<longleftrightarrow>
     writer t \<and> reader t \<and> has_drain t \<and> drain t = Returns \<and>
     (\<exists>rest. source t = Parsed (JDict response) # rest) \<and>
     id_matches response (request_id t + 1)"
  by (auto simp add: send_message_def create_request_typed Let_def id_matches_def
        split: list.splits line.splits json.splits option.splits outcome.splits)

lemma send_message_raises:
  "fst (send_message method params t) = Inl e \<Longrightarrow>
   e = CancelledError \<or> (\<exists>te. e = TransportError te)"
  by (auto simp add: send_message_def create_request_typed Let_def
        split: if_splits list.splits line.splits json.splits option.splits outcome.splits)

lemma send_streaming_message_state:
  "snd (send_streaming_message method params t) =
    (if \<not> writer t \<or> \<not> reader t then t
     else if has_drain t \<and> drain t = Returns then
       t\<lparr>request_id := request_id t + 1,
         sink := sink t @ [request_envelope method params (request_id t + 1)],
         source := snd (stream_loop (request_id t + 1) (source t))\<rparr>
     else
       t\<lparr>request_id := request_id t + 1,
         sink := sink t @ [request_envelope method params (request_id t + 1)]\<rparr>)"
  by (simp add: send_streaming_message_def create_request_typed request_envelope_def Let_def
        split: prod.splits outcome.splits)

lemma send_streaming_message_reads:
  "writer t \<Longrightarrow> reader t \<Longrightarrow> has_drain t \<Longrightarrow> drain t = Returns \<Longrightarrow>
   send_streaming_message method params t =
     (fst (stream_loop (request_id t + 1) (source t)),
      t\<lparr>request_id := request_id t + 1,
        sink := sink t @ [request_envelope method params (request_id t + 1)],
        source := snd (stream_loop (request_id t + 1) (source t))\<rparr>)"
  by (simp add: send_streaming_message_def create_request_typed request_envelope_def Let_def
        split: prod.splits)



lemma stream_loop_exhausted:
  "\<forall>l \<in> set ls. \<exists>d. l = Parsed (JDict d) \<and> \<not> (id_matches d rid \<and> terminal d) \<Longrightarrow>
   stream_loop rid ls = (([d. Parsed (JDict d) \<leftarrow> ls, id_matches d rid], Completed), [])"
  by (induction rid ls rule: stream_loop.induct) auto

lemma ids_invariant_write:
  assumes "ids_invariant t"
    and "request_id t' = request_id t + 1"
    and "sink t' = sink t @ [request_envelope m p (request_id t + 1)]"
  shows "ids_invariant t'"
proof -
  from assms(1) obtain ids where ids: "wire_ids t = map JInt ids" "sorted_wrt (<) ids"
      "\<forall>n \<in> set ids. 1 \<le> n \<and> n \<le> request_id t" and nonneg: "0 \<le> request_id t"
    unfolding ids_invariant_def by blast
  have "wire_ids t' = map JInt (ids @ [request_id t + 1])"
    using ids(1) assms(3) by (simp add: wire_ids_def request_envelope_def dict_get_def)
  moreover have "sorted_wrt (<) (ids @ [request_id t + 1])"
    using ids(2,3) by (auto simp add: sorted_wrt_append)
  moreover have "\<forall>n \<in> set (ids @ [request_id t + 1]). 1 \<le> n \<and> n \<le> request_id t'"
    using ids(3) nonneg assms(2) by auto
  moreover have "0 \<le> request_id t'" using nonneg assms(2) by simp
  ultimately show ?thesis unfolding ids_invariant_def by blast
qed

lemma ids_invariant_env:
  assumes "ids_invariant t" "request_id t' = request_id t" "sink t' = sink t"
  shows "ids_invariant t'"
  using assms unfolding ids_invariant_def wire_ids_def by simp

lemma ids_invariant_perform: "ids_invariant t \<Longrightarrow> ids_invariant (perform c t)"
proof (cases c)
  case Connect
  assume "ids_invariant t"
  then show ?thesis unfolding Connect
    by (rule ids_invariant_env) (simp_all add: connect_def split: outcome.splits)
next
  case Disconnect
  assume "ids_invariant t"
  then show ?thesis unfolding Disconnect
    by (rule ids_invariant_env)
       (simp_all add: disconnect_def Let_def split: option.splits process.splits)
next
  case (Send m p)
  assume inv: "ids_invariant t"
  show ?thesis
  proof (cases "\<not> writer t \<or> \<not> reader t")
    case True
    with inv show ?thesis unfolding Send by (simp add: send_message_state)
  next
    case False
    show ?thesis unfolding Send perform.simps
      by (rule ids_invariant_write [OF inv, of _ m p]) (use False in \<open>simp_all add: send_message_state\<close>)
  qed
next
  case (Stream m p)
  assume inv: "ids_invariant t"
  show ?thesis
  proof (cases "\<not> writer t \<or> \<not> reader t")
    case True
    with inv show ?thesis unfolding Stream by (simp add: send_streaming_message_state)
  next
    case False
    show ?thesis unfolding Stream perform.simps
      by (rule ids_invariant_write [OF inv, of _ m p])
         (use False in \<open>simp_all add: send_streaming_message_state\<close>)
  qed
next
  case (Assign r w d)
  assume "ids_invariant t"
  then show ?thesis unfolding Assign
    by (rule ids_invariant_env) simp_all
next
  case (Environment dr ps cl sl ig ls)
  assume "ids_invariant t"
  then show ?thesis unfolding Environment
    by (rule ids_invariant_env) simp_all
qed

lemma ids_invariant_run: "ids_invariant t \<Longrightarrow> ids_invariant (run calls t)"
  unfolding run_def by (induction calls arbitrary: t) (simp_all add: ids_invariant_perform)

lemma ids_invariant_new: "ids_invariant (new_transport ls)"
  by (simp add: ids_invariant_def new_transport_def wire_ids_def)

subsection \<open>The id counter\<close>

text \<open>
  Claim C10. The id counter is shared by \<open>send_message\<close> and \<open>send_streaming_message\<close>.
  A call rejected by the connection check leaves the transport as it was. Every other
  call increments the counter exactly once, whatever its outcome, and writes at most one
  envelope, which carries the incremented value. Hence, for any sequence of operations
  on one transport instance and any behaviour of the environment, the ids on the wire
  are strictly increasing integers between 1 and the counter: none is used twice.
  (\<open>send_streaming_message\<close> is a generator; its call here is the run of its body.)
\<close>

theorem request_id_counter:
  "(\<not> (writer t \<and> reader t) \<longrightarrow>
      snd (send_message method params t) = t \<and>
      snd (send_streaming_message method params t) = t) \<and>
   (writer t \<and> reader t \<longrightarrow>
      request_id (snd (send_message method params t)) = request_id t + 1 \<and>
      request_id (snd (send_streaming_message method params t)) = request_id t + 1 \<and>
      (wire_ids (snd (send_message method params t)) = wire_ids t \<or>
       wire_ids (snd (send_message method params t)) = wire_ids t @ [JInt (request_id t + 1)]) \<and>
      (wire_ids (snd (send_streaming_message method params t)) = wire_ids t \<or>
       wire_ids (snd (send_streaming_message method params t)) =
         wire_ids t @ [JInt (request_id t + 1)])) \<and>
   (\<exists>ids. wire_ids (run calls (new_transport ls)) = map JInt ids \<and>
          sorted_wrt (<) ids \<and>
          (\<forall>n \<in> set ids. 1 \<le> n \<and> n \<le> request_id (run calls (new_transport ls))))"
proof (intro conjI impI)
  show "\<exists>ids. wire_ids (run calls (new_transport ls)) = map JInt ids \<and>
          sorted_wrt (<) ids \<and>
          (\<forall>n \<in> set ids. 1 \<le> n \<and> n \<le> request_id (run calls (new_transport ls)))"
    using ids_invariant_run [OF ids_invariant_new, of calls ls]
    unfolding ids_invariant_def by blast
qed (auto simp add: send_message_state send_streaming_message_state wire_ids_def
       request_envelope_def dict_get_def)

lemma run_example:
  "run [Connect, Send ''ping'' [], Stream ''tools/call'' [], Disconnect,
        Send ''ping'' [], Assign True True True, Send ''ping'' []]
       (new_transport [Malformed ''x'']) =
   (new_transport [])
     \<lparr>reader := True, writer := True, has_drain := True, request_id := 3,
       sink := [request_envelope ''ping'' [] 1, request_envelope ''tools/call'' [] 2,
                request_envelope ''ping'' [] 3]\<rparr>"
  by (simp add: run_def connect_def disconnect_def new_transport_def send_message_state
        send_streaming_message_state)

theorem request_id_counter_witness:
  "\<not> (writer (new_transport []) \<and> reader (new_transport [])) \<and>
   snd (send_message ''ping'' [] (new_transport [])) = new_transport [] \<and>
   writer (streams []) \<and> reader (streams []) \<and>
   fst (send_message ''ping'' [] (streams [])) = Inl (TransportError ConnectionClosed) \<and>
   request_id (snd (send_message ''ping'' [] (streams []))) = 1 \<and>
   wire_ids (snd (send_message ''ping'' [] (streams []))) = [JInt 1] \<and>
   wire_ids (run [Connect, Send ''ping'' [], Stream ''tools/call'' [], Disconnect,
                  Send ''ping'' [], Assign True True True, Send ''ping'' []]
             (new_transport [Malformed ''x''])) = [JInt 1, JInt 2, JInt 3]"
proof -
  have h1: "\<not> (writer (new_transport []) \<and> reader (new_transport []))"
    by (simp add: new_transport_def)
  have h2: "writer (streams []) \<and> reader (streams [])"
    by (simp add: streams_def)
  have r: "fst (send_message ''ping'' [] (streams [])) = Inl (TransportError ConnectionClosed)"
    by (simp add: streams_def send_message_def create_request_typed)
  have w: "wire_ids (run [Connect, Send ''ping'' [], Stream ''tools/call'' [], Disconnect,
                  Send ''ping'' [], Assign True True True, Send ''ping'' []]
             (new_transport [Malformed ''x''])) = [JInt 1, JInt 2, JInt 3]"
    unfolding run_example
    by (simp add: wire_ids_def request_envelope_def dict_get_def new_transport_def)
  show ?thesis
    using h1 h2 r w
      request_id_counter [of "new_transport []" "''ping''" "[]"
        "[Connect, Send ''ping'' [], Stream ''tools/call'' [], Disconnect,
          Send ''ping'' [], Assign True True True, Send ''ping'' []]" "[Malformed ''x'']"]
      request_id_counter [of "streams []" "''ping''" "[]" "[]" "[]"]
    by (simp add: streams_def wire_ids_def send_message_state request_envelope_def dict_get_def)
qed

subsection \<open>One round trip\<close>




subsection \<open>Streaming\<close>




text \<open>
  Claim C1 says that the exchange raises a \<^verbatim>\<open>TransportError\<close> when the source is
  exhausted before a terminal envelope arrives. In the source the loop leaves with
  \<^verbatim>\<open>break\<close> when \<^verbatim>\<open>readline\<close> returns the empty line: after one partial envelope and
  then end of stream, the generator has yielded that envelope and completes normally.
\<close>

theorem streaming_truncated_completes:
  "fst (send_streaming_message ''tools/call'' []
     (streams
        [Parsed (JDict [(''id'', JInt 1), (''result'', JStr ''a''), (''partial'', JBool True)])]))
   = ([[(''id'', JInt 1), (''result'', JStr ''a''), (''partial'', JBool True)]], Completed) \<and>
   source (snd (send_streaming_message ''tools/call'' []
     (streams
        [Parsed (JDict [(''id'', JInt 1), (''result'', JStr ''a''), (''partial'', JBool True)])])))
   = []"
  by (simp add: send_streaming_message_reads streams_def id_matches_def terminal_def)

text \<open>
  Claim C1, amended. In a streaming exchange that reaches the read loop (the reader and
  the writer are set, the writer has a \<^verbatim>\<open>drain\<close> and it returns), if the source is
  exhausted before a terminal envelope with the outstanding id has been received (every
  line read is a mapping, and none of them is both matching and terminal),
  \<open>send_streaming_message\<close> completes normally, without a \<^verbatim>\<open>TransportError\<close>, after
  yielding the matching envelopes in arrival order; so normal completion occurs on a
  terminal envelope or at end of stream.
\<close>

theorem streaming_completes_at_end_of_stream:
  assumes "writer t" and "reader t" and "has_drain t" and "drain t = Returns"
    and "\<forall>l \<in> set (source t). \<exists>d. l = Parsed (JDict d) \<and>
            \<not> (id_matches d (request_id t + 1) \<and> terminal d)"
  shows "fst (send_streaming_message method params t) =
           ([d. Parsed (JDict d) \<leftarrow> source t, id_matches d (request_id t + 1)], Completed) \<and>
         source (snd (send_streaming_message method params t)) = []"
  using assms(1-4) stream_loop_exhausted [OF assms(5)]
  by (simp add: send_streaming_message_reads)

theorem streaming_completes_at_end_of_stream_witness:
  "fst (send_streaming_message ''tools/call'' []
     (streams
        [Parsed (JDict [(''id'', JInt 1), (''partial'', JBool True)]),
         Parsed (JDict [(''id'', JInt 5)])])) =
     ([[(''id'', JInt 1), (''partial'', JBool True)]], Completed)"
proof -
  let ?t = "streams
        [Parsed (JDict [(''id'', JInt 1), (''partial'', JBool True)]),
         Parsed (JDict [(''id'', JInt 5)])]"
  have c: "writer ?t" "reader ?t" "has_drain ?t" "drain ?t = Returns"
    by (simp_all add: streams_def)
  have h: "\<forall>l \<in> set (source ?t). \<exists>d. l = Parsed (JDict d) \<and>
            \<not> (id_matches d (request_id ?t + 1) \<and> terminal d)"
    by (simp add: streams_def id_matches_def terminal_def)
  show ?thesis
    using streaming_completes_at_end_of_stream [OF c h, of "''tools/call''" "[]"]
    by (simp add: streams_def id_matches_def)
qed

section \<open>The client\<close>

lemma call_tool_transport:
  "transport (snd (call_tool tool_name params c)) =
     snd (send_message ''tools/call''
            [(''name'', JStr tool_name), (''parameters'', JDict params)] (transport c))"
  by (simp add: call_tool_def
        split: prod.splits sum.splits option.splits json.splits exn.splits)

lemma call_tool_result:
  "fst (call_tool tool_name params c) =
    (case fst (send_message ''tools/call''
            [(''name'', JStr tool_name), (''parameters'', JDict params)] (transport c)) of
       Inl (TransportError e) \<Rightarrow>
         Inl (ToolExecutionError tool_name (TransportText e) (Cause e))
     | Inl e \<Rightarrow> Inl e
     | Inr response \<Rightarrow>
         (case map_of response ''result'' of
            Some result \<Rightarrow> Inr result
          | None \<Rightarrow>
              (case map_of response ''error'' of
                 Some (JDict error) \<Rightarrow>
                   if py_eq_int (dict_get_default error ''code'' (JInt 0)) 1100
                   then Inl (InvalidToolError tool_name (Data (dict_get error ''data'')))
                   else Inl (ToolExecutionError tool_name
                                (FromServer (dict_get_default error ''message''
                                               (JStr ''Unknown error'')))
                                (Data (dict_get error ''data'')))
               | Some other \<Rightarrow> Inl AttributeError
               | None \<Rightarrow>
                   Inl (ToolExecutionError tool_name (Text ''Invalid response from server'')
                           (Data JNull)))))"
  by (simp add: call_tool_def
        split: prod.splits sum.splits option.splits json.splits exn.splits)

lemma get_named_result:
  "fst (get_named method name params c) =
    (case fst (send_message method (request_params name params) (transport c)) of
       Inl (TransportError e) \<Rightarrow> Inl (MCPProtocolError (TransportText e) (JInt 0) (Cause e))
     | Inl e \<Rightarrow> Inl e
     | Inr response \<Rightarrow>
         (case map_of response ''result'' of
            Some result \<Rightarrow> Inr result
          | None \<Rightarrow>
              (case map_of response ''error'' of
                 Some (JDict error) \<Rightarrow>
                   Inl (MCPProtocolError
                           (FromServer (dict_get_default error ''message''
                                          (JStr ''Unknown error'')))
                           (dict_get_default error ''code'' (JInt 0))
                           (Data (dict_get error ''data'')))
               | Some other \<Rightarrow> Inl AttributeError
               | None \<Rightarrow>
                   Inl (MCPProtocolError (Text ''Invalid response from server'') (JInt 0)
                           (Data JNull)))))"
  by (simp add: get_named_def
        split: prod.splits sum.splits option.splits json.splits exn.splits)

lemma shutdown_result:
  "shutdown c =
    (case fst (send_message ''shutdown'' [] (transport c)) of
       Inl e \<Rightarrow>
         (if e = CancelledError then Inl CancelledError else Inr False,
          c\<lparr>transport := snd (send_message ''shutdown'' [] (transport c))\<rparr>)
     | Inr response \<Rightarrow>
         (case fst (disconnect (snd (send_message ''shutdown'' [] (transport c)))) of
            Inl e \<Rightarrow> if e = CancelledError then Inl CancelledError else Inr False
          | Inr disconnected \<Rightarrow> Inr True,
          c\<lparr>transport :=
               snd (disconnect (snd (send_message ''shutdown'' [] (transport c))))\<rparr>))"
proof (cases "send_message ''shutdown'' [] (transport c)")
  case (Pair r t1)
  show ?thesis
  proof (cases r)
    case (Inl e)
    with Pair show ?thesis by (simp add: shutdown_def)
  next
    case (Inr response)
    with Pair show ?thesis
      by (cases "disconnect t1") (auto simp add: shutdown_def split: sum.splits)
  qed
qed

lemma disconnect_raises:
  "fst (disconnect t) = Inl e \<Longrightarrow> e = CancelledError"
  by (auto simp add: disconnect_def Let_def split: if_splits option.splits process.splits)

text \<open>
  The writer that \<open>connect\<close> stores has no \<^verbatim>\<open>drain\<close>, and \<open>initialize\<close> connects before
  it sends: on this transport its send never returns, and \<open>initialize\<close> always raises.
\<close>

lemma connect_leaves_no_drain:
  "fst (connect t) = Inr True \<Longrightarrow>
   writer (snd (connect t)) \<and> reader (snd (connect t)) \<and> \<not> has_drain (snd (connect t))"
  by (auto simp add: connect_def split: outcome.splits)

lemma initialize_raises: "\<exists>e. fst (initialize c) = Inl e"
proof (cases "fst (connect (transport c)) = Inr True")
  case True
  from connect_leaves_no_drain [OF True]
  have "\<not> (\<exists>r. fst (send_message ''initialize'' initialize_params
                  (snd (connect (transport c)))) = Inr r)"
    by (simp add: send_message_result)
  then obtain e where "fst (send_message ''initialize'' initialize_params
                  (snd (connect (transport c)))) = Inl e"
    by (cases "fst (send_message ''initialize'' initialize_params
                  (snd (connect (transport c))))") auto
  with True show ?thesis
    by (auto simp add: initialize_def split: prod.splits sum.splits exn.splits)
next
  case False
  then show ?thesis
    by (auto simp add: initialize_def split: prod.splits sum.splits)
qed

text \<open>
  Claim C2 says that \<open>call_tool\<close> with a name absent from the capabilities raises
  \<^verbatim>\<open>InvalidToolError\<close> without a round trip. The client never reads its \<open>capabilities\<close>.
  With an empty tool list stored there, \<open>call_tool\<close> for the tool \<^verbatim>\<open>missing\<close> writes its
  request: on a transport with assigned streams it returns the server's result, and on
  a transport that \<open>connect\<close> has set up it raises \<^verbatim>\<open>ToolExecutionError\<close> after the
  write.
\<close>

theorem call_tool_unknown_name_round_trips:
  "fst (call_tool ''missing'' []
     \<lparr>transport = streams [Parsed (JDict [(''jsonrpc'', JStr ''2.0''),
                              (''result'', JStr ''done''), (''id'', JInt 1)])],
      capabilities = Some (JDict [(''tools'', JList [])])\<rparr>) = Inr (JStr ''done'') \<and>
   sink (transport (snd (call_tool ''missing'' []
     \<lparr>transport = streams [Parsed (JDict [(''jsonrpc'', JStr ''2.0''),
                              (''result'', JStr ''done''), (''id'', JInt 1)])],
      capabilities = Some (JDict [(''tools'', JList [])])\<rparr>))) =
     [request_envelope ''tools/call''
        [(''name'', JStr ''missing''), (''parameters'', JDict [])] 1] \<and>
   fst (call_tool ''missing'' []
     \<lparr>transport = snd (connect (new_transport [])),
      capabilities = Some (JDict [(''tools'', JList [])])\<rparr>) =
     Inl (ToolExecutionError ''missing'' (TransportText ErrorSending) (Cause ErrorSending)) \<and>
   sink (transport (snd (call_tool ''missing'' []
     \<lparr>transport = snd (connect (new_transport [])),
      capabilities = Some (JDict [(''tools'', JList [])])\<rparr>))) =
     [request_envelope ''tools/call''
        [(''name'', JStr ''missing''), (''parameters'', JDict [])] 1]"
  by (simp add: call_tool_def streams_def connect_def new_transport_def send_message_def
        create_request_typed request_envelope_def)

text \<open>
  Claim C2, amended. For every tool name, \<open>call_tool\<close> does not consult the capabilities
  stored by \<open>initialize\<close>: its outcome and the state it leaves the transport in are the
  same whatever they are. Whenever the reader and the writer of the transport are set,
  it writes one \<^verbatim>\<open>tools/call\<close> request naming the tool, and otherwise none. It raises
  \<^verbatim>\<open>InvalidToolError\<close> exactly when the send returns an envelope that has no \<^verbatim>\<open>result\<close>
  and an \<^verbatim>\<open>error\<close> object whose code equals 1100.
\<close>

theorem call_tool_always_round_trips:
  "sink (transport (snd (call_tool tool_name params c))) =
     (if writer (transport c) \<and> reader (transport c)
      then sink (transport c) @
             [request_envelope ''tools/call''
                [(''name'', JStr tool_name), (''parameters'', JDict params)]
                (request_id (transport c) + 1)]
      else sink (transport c)) \<and>
   fst (call_tool tool_name params (c\<lparr>capabilities := caps\<rparr>)) =
     fst (call_tool tool_name params c) \<and>
   transport (snd (call_tool tool_name params (c\<lparr>capabilities := caps\<rparr>))) =
     transport (snd (call_tool tool_name params c)) \<and>
   ((\<exists>e. fst (call_tool tool_name params c) = Inl e \<and>
          exception_class e = CInvalidToolError) \<longleftrightarrow>
    (\<exists>response error.
        fst (send_message ''tools/call''
               [(''name'', JStr tool_name), (''parameters'', JDict params)] (transport c)) =
          Inr response \<and>
        map_of response ''result'' = None \<and>
        map_of response ''error'' = Some (JDict error) \<and>
        py_eq_int (dict_get_default error ''code'' (JInt 0)) 1100))"
proof (intro conjI)
  show "sink (transport (snd (call_tool tool_name params c))) =
     (if writer (transport c) \<and> reader (transport c)
      then sink (transport c) @
             [request_envelope ''tools/call''
                [(''name'', JStr tool_name), (''parameters'', JDict params)]
                (request_id (transport c) + 1)]
      else sink (transport c))"
    by (simp add: call_tool_transport send_message_state)
  show "fst (call_tool tool_name params (c\<lparr>capabilities := caps\<rparr>)) =
           fst (call_tool tool_name params c)"
    by (simp add: call_tool_result)
  show "transport (snd (call_tool tool_name params (c\<lparr>capabilities := caps\<rparr>))) =
     transport (snd (call_tool tool_name params c))"
    by (simp add: call_tool_transport)
  let ?r = "fst (send_message ''tools/call''
            [(''name'', JStr tool_name), (''parameters'', JDict params)] (transport c))"
  show "(\<exists>e. fst (call_tool tool_name params c) = Inl e \<and>
                exception_class e = CInvalidToolError) \<longleftrightarrow>
          (\<exists>response error. ?r = Inr response \<and>
              map_of response ''result'' = None \<and>
              map_of response ''error'' = Some (JDict error) \<and>
              py_eq_int (dict_get_default error ''code'' (JInt 0)) 1100)"
  proof (cases ?r)
    case (Inl e)
    from send_message_raises [OF Inl] Inl show ?thesis
      by (auto simp add: call_tool_result)
  next
    case (Inr response)
    then show ?thesis
      by (auto simp add: call_tool_result split: option.splits json.splits)
  qed
qed

theorem call_tool_always_round_trips_witness:
  "sink (transport (snd (call_tool ''missing'' []
     \<lparr>transport = streams
        [Parsed (JDict [(''error'', JDict [(''code'', JInt 1100)]), (''id'', JInt 1)])],
      capabilities = Some (JDict [(''tools'', JList [])])\<rparr>))) =
     [request_envelope ''tools/call''
        [(''name'', JStr ''missing''), (''parameters'', JDict [])] 1] \<and>
   (\<exists>e. fst (call_tool ''missing'' []
     \<lparr>transport = streams
        [Parsed (JDict [(''error'', JDict [(''code'', JInt 1100)]), (''id'', JInt 1)])],
      capabilities = Some (JDict [(''tools'', JList [])])\<rparr>) = Inl e \<and>
        exception_class e = CInvalidToolError) \<and>
   sink (transport (snd (call_tool ''missing'' []
     \<lparr>transport = new_transport [],
      capabilities = Some (JDict [(''tools'', JList [])])\<rparr>))) = []"
proof -
  let ?resp = "[(''error'', JDict [(''code'', JInt 1100)]), (''id'', JInt 1)]"
  let ?c = "\<lparr>transport = streams [Parsed (JDict ?resp)],
             capabilities = Some (JDict [(''tools'', JList [])])\<rparr>"
  let ?d = "\<lparr>transport = new_transport [],
             capabilities = Some (JDict [(''tools'', JList [])])\<rparr>"
  have server: "\<exists>response error.
        fst (send_message ''tools/call''
               [(''name'', JStr ''missing''), (''parameters'', JDict [])] (transport ?c)) =
          Inr response \<and>
        map_of response ''result'' = None \<and>
        map_of response ''error'' = Some (JDict error) \<and>
        py_eq_int (dict_get_default error ''code'' (JInt 0)) 1100"
    by (simp add: send_message_result streams_def id_matches_def dict_get_default_def)
  show ?thesis
    using server
      call_tool_always_round_trips [of "''missing''" "[]" ?c None]
      call_tool_always_round_trips [of "''missing''" "[]" ?d None]
    by (simp add: streams_def new_transport_def)
qed

text \<open>
  Claim C3 says that \<open>shutdown\<close> calls \<open>disconnect\<close> whether or not the shutdown
  notification succeeded, reports every failure as its boolean, and never raises. Both
  calls are in one \<^verbatim>\<open>try\<close> block. On a transport that \<open>connect\<close> has set up, and on one
  with assigned streams whose peer has closed, the send raises a \<^verbatim>\<open>TransportError\<close>:
  \<open>shutdown\<close> returns \<open>False\<close> and the writer is still set, which \<open>disconnect\<close> would
  have cleared. When the task is cancelled while it waits for the response, \<open>shutdown\<close>
  raises \<^verbatim>\<open>CancelledError\<close>. When the send is answered and \<^verbatim>\<open>writer.close()\<close> raises,
  \<open>shutdown\<close> returns \<open>True\<close> although the writer is still set.
\<close>

theorem shutdown_skips_disconnect_and_can_raise:
  "fst (shutdown (new_client (snd (connect (new_transport []))))) = Inr False \<and>
   sink (transport (snd (shutdown (new_client (snd (connect (new_transport []))))))) =
     [request_envelope ''shutdown'' [] 1] \<and>
   writer (transport (snd (shutdown (new_client (snd (connect (new_transport []))))))) \<and>
   reader (transport (snd (shutdown (new_client (snd (connect (new_transport []))))))) \<and>
   fst (shutdown (new_client (streams []))) = Inr False \<and>
   writer (transport (snd (shutdown (new_client (streams []))))) \<and>
   \<not> writer (snd (disconnect (transport (snd (shutdown (new_client (streams []))))))) \<and>
   fst (shutdown (new_client (streams [CancelledRead]))) = Inl CancelledError \<and>
   fst (shutdown (new_client
     ((streams [Parsed (JDict [(''result'', JNull), (''id'', JInt 1)])])
        \<lparr>close_raises := True\<rparr>))) = Inr True \<and>
   writer (transport (snd (shutdown (new_client
     ((streams [Parsed (JDict [(''result'', JNull), (''id'', JInt 1)])])
        \<lparr>close_raises := True\<rparr>)))))"
  by (simp add: shutdown_def new_client_def connect_def new_transport_def streams_def
        send_message_def create_request_typed request_envelope_def disconnect_def)

text \<open>
  Claim C3, amended. \<open>shutdown\<close> sends the shutdown notification and calls \<open>disconnect\<close>
  only when the send returned a response; it then returns \<open>True\<close> whatever boolean
  \<open>disconnect\<close> returned (the reader and the writer are cleared when that boolean is
  \<open>True\<close> and still set when it is \<open>False\<close>). When the send raises a \<^verbatim>\<open>TransportError\<close>,
  \<open>disconnect\<close> is not called, the transport is left as the send left it, and
  \<open>shutdown\<close> returns \<open>False\<close>. A \<^verbatim>\<open>CancelledError\<close> raised by the send or by
  \<open>disconnect\<close> reaches the caller; \<open>shutdown\<close> raises nothing else.
\<close>

theorem shutdown_outcome:
  "((\<exists>te. fst (send_message ''shutdown'' [] (transport c)) = Inl (TransportError te)) \<longrightarrow>
      fst (shutdown c) = Inr False \<and>
      transport (snd (shutdown c)) = snd (send_message ''shutdown'' [] (transport c)) \<and>
      writer (transport (snd (shutdown c))) = writer (transport c) \<and>
      reader (transport (snd (shutdown c))) = reader (transport c)) \<and>
   (fst (send_message ''shutdown'' [] (transport c)) = Inl CancelledError \<longrightarrow>
      fst (shutdown c) = Inl CancelledError \<and>
      transport (snd (shutdown c)) = snd (send_message ''shutdown'' [] (transport c))) \<and>
   ((\<exists>response. fst (send_message ''shutdown'' [] (transport c)) = Inr response) \<longrightarrow>
      transport (snd (shutdown c)) =
        snd (disconnect (snd (send_message ''shutdown'' [] (transport c)))) \<and>
      (fst (disconnect (snd (send_message ''shutdown'' [] (transport c)))) = Inr True \<longrightarrow>
         fst (shutdown c) = Inr True \<and>
         \<not> writer (transport (snd (shutdown c))) \<and>
         \<not> reader (transport (snd (shutdown c)))) \<and>
      (fst (disconnect (snd (send_message ''shutdown'' [] (transport c)))) = Inr False \<longrightarrow>
         fst (shutdown c) = Inr True \<and>
         writer (transport (snd (shutdown c))) \<and>
         reader (transport (snd (shutdown c)))) \<and>
      (fst (disconnect (snd (send_message ''shutdown'' [] (transport c)))) =
         Inl CancelledError \<longrightarrow>
         fst (shutdown c) = Inl CancelledError)) \<and>
   (\<forall>e. fst (shutdown c) = Inl e \<longrightarrow> e = CancelledError)"
proof -
  let ?s = "send_message ''shutdown'' [] (transport c)"
  have failed: "fst (shutdown c) = Inr False \<and> transport (snd (shutdown c)) = snd ?s \<and>
      writer (transport (snd (shutdown c))) = writer (transport c) \<and>
      reader (transport (snd (shutdown c))) = reader (transport c)"
    if "\<exists>te. fst ?s = Inl (TransportError te)"
  proof -
    from that obtain te where "fst ?s = Inl (TransportError te)" ..
    then have "fst (shutdown c) = Inr False" and t: "transport (snd (shutdown c)) = snd ?s"
      by (simp_all add: shutdown_result)
    then show ?thesis by (simp add: send_message_state)
  qed
  have cancelled: "fst (shutdown c) = Inl CancelledError \<and>
      transport (snd (shutdown c)) = snd ?s"
    if "fst ?s = Inl CancelledError"
    using that by (simp add: shutdown_result)
  have answered: "transport (snd (shutdown c)) = snd (disconnect (snd ?s))"
    and cleared: "fst (disconnect (snd ?s)) = Inr True \<longrightarrow>
         fst (shutdown c) = Inr True \<and>
         \<not> writer (transport (snd (shutdown c))) \<and>
         \<not> reader (transport (snd (shutdown c)))"
    and kept: "fst (disconnect (snd ?s)) = Inr False \<longrightarrow>
         fst (shutdown c) = Inr True \<and>
         writer (transport (snd (shutdown c))) \<and>
         reader (transport (snd (shutdown c)))"
    and interrupted: "fst (disconnect (snd ?s)) = Inl CancelledError \<longrightarrow>
         fst (shutdown c) = Inl CancelledError"
    if "\<exists>response. fst ?s = Inr response"
  proof -
    from that obtain r where r: "fst ?s = Inr r" ..
    then have attrs: "writer (snd ?s)" "reader (snd ?s)"
      by (simp_all add: send_message_result send_message_state)
    from r show t: "transport (snd (shutdown c)) = snd (disconnect (snd ?s))"
      by (simp add: shutdown_result)
    from r show "fst (disconnect (snd ?s)) = Inl CancelledError \<longrightarrow>
         fst (shutdown c) = Inl CancelledError"
      by (simp add: shutdown_result)
    from r attrs show "fst (disconnect (snd ?s)) = Inr True \<longrightarrow>
         fst (shutdown c) = Inr True \<and>
         \<not> writer (transport (snd (shutdown c))) \<and>
         \<not> reader (transport (snd (shutdown c)))"
      unfolding t
      by (auto simp add: shutdown_result disconnect_def Let_def
            split: if_splits option.splits process.splits)
    from r attrs show "fst (disconnect (snd ?s)) = Inr False \<longrightarrow>
         fst (shutdown c) = Inr True \<and>
         writer (transport (snd (shutdown c))) \<and>
         reader (transport (snd (shutdown c)))"
      unfolding t
      by (auto simp add: shutdown_result disconnect_def Let_def
            split: if_splits option.splits process.splits)
  qed
  have only: "e = CancelledError" if "fst (shutdown c) = Inl e" for e
    using that disconnect_raises [of "snd ?s"]
    by (auto simp add: shutdown_result split: sum.splits if_splits)
  from failed cancelled answered cleared kept interrupted only
  show ?thesis by blast
qed

theorem shutdown_outcome_witness:
  "(\<exists>te. fst (send_message ''shutdown'' [] (transport (new_client (streams [])))) =
         Inl (TransportError te)) \<and>
   fst (shutdown (new_client (streams []))) = Inr False \<and>
   writer (transport (snd (shutdown (new_client (streams []))))) \<and>
   fst (send_message ''shutdown'' [] (transport (new_client (streams [CancelledRead])))) =
     Inl CancelledError \<and>
   fst (shutdown (new_client (streams [CancelledRead]))) = Inl CancelledError \<and>
   (\<exists>response. fst (send_message ''shutdown'' []
       (transport (new_client
          (streams [Parsed (JDict [(''result'', JNull), (''id'', JInt 1)])]))))
       = Inr response) \<and>
   fst (shutdown (new_client
          (streams [Parsed (JDict [(''result'', JNull), (''id'', JInt 1)])]))) = Inr True \<and>
   \<not> writer (transport (snd (shutdown (new_client
          (streams [Parsed (JDict [(''result'', JNull), (''id'', JInt 1)])]))))) \<and>
   fst (shutdown (new_client
          ((streams [Parsed (JDict [(''result'', JNull), (''id'', JInt 1)])])
             \<lparr>close_raises := True\<rparr>))) = Inr True \<and>
   writer (transport (snd (shutdown (new_client
          ((streams [Parsed (JDict [(''result'', JNull), (''id'', JInt 1)])])
             \<lparr>close_raises := True\<rparr>))))) \<and>
   fst (shutdown (new_client
          ((streams [Parsed (JDict [(''result'', JNull), (''id'', JInt 1)])])
             \<lparr>process := Some Running, sleep_cancelled := True\<rparr>))) = Inl CancelledError"
proof -
  let ?ok = "streams [Parsed (JDict [(''result'', JNull), (''id'', JInt 1)])]"
  let ?closed = "new_client (streams [])"
  let ?cancel = "new_client (streams [CancelledRead])"
  let ?answer = "new_client ?ok"
  let ?stuck = "new_client (?ok \<lparr>close_raises := True\<rparr>)"
  let ?sleep = "new_client (?ok \<lparr>process := Some Running, sleep_cancelled := True\<rparr>)"
  have closed: "\<exists>te. fst (send_message ''shutdown'' [] (transport ?closed)) =
      Inl (TransportError te)"
    by (simp add: new_client_def streams_def send_message_def create_request_typed)
  have cancel: "fst (send_message ''shutdown'' [] (transport ?cancel)) = Inl CancelledError"
    by (simp add: new_client_def streams_def send_message_def create_request_typed)
  have answered: "\<exists>response. fst (send_message ''shutdown'' [] (transport ?answer)) =
      Inr response"
    "\<exists>response. fst (send_message ''shutdown'' [] (transport ?stuck)) = Inr response"
    "\<exists>response. fst (send_message ''shutdown'' [] (transport ?sleep)) = Inr response"
    by (simp_all add: new_client_def streams_def send_message_result id_matches_def)
  have disconnected:
    "fst (disconnect (snd (send_message ''shutdown'' [] (transport ?answer)))) = Inr True"
    "fst (disconnect (snd (send_message ''shutdown'' [] (transport ?stuck)))) = Inr False"
    "fst (disconnect (snd (send_message ''shutdown'' [] (transport ?sleep)))) =
       Inl CancelledError"
    by (simp_all add: new_client_def streams_def send_message_state disconnect_def)
  show ?thesis
    using closed cancel answered disconnected
      shutdown_outcome [of ?closed] shutdown_outcome [of ?cancel] shutdown_outcome [of ?answer]
      shutdown_outcome [of ?stuck] shutdown_outcome [of ?sleep]
    by (simp add: new_client_def streams_def send_message_state disconnect_def)
qed

text \<open>
  Claim C4 says that the codes 1201 and 1301 are raised as a distinct "not found" kind.
  The source raises \<^verbatim>\<open>MCPProtocolError\<close> for every error envelope: the exception for
  code 1201 (and the one for 1301) has the same class as the one for the unmapped code
  9999.
\<close>

theorem not_found_codes_raise_generic_error:
  "fst (get_prompt ''greeting'' None (new_client (streams
     [Parsed (JDict [(''jsonrpc'', JStr ''2.0''),
        (''error'', JDict [(''code'', JInt 1201), (''message'', JStr ''Prompt not found'')]),
        (''id'', JInt 1)])]))) =
     Inl (MCPProtocolError (FromServer (JStr ''Prompt not found'')) (JInt 1201) (Data JNull)) \<and>
   fst (get_resource ''readme'' None (new_client (streams
     [Parsed (JDict [(''jsonrpc'', JStr ''2.0''),
        (''error'', JDict [(''code'', JInt 1301), (''message'', JStr ''Resource not found'')]),
        (''id'', JInt 1)])]))) =
     Inl (MCPProtocolError (FromServer (JStr ''Resource not found'')) (JInt 1301) (Data JNull)) \<and>
   fst (get_prompt ''greeting'' None (new_client (streams
     [Parsed (JDict [(''jsonrpc'', JStr ''2.0''),
        (''error'', JDict [(''code'', JInt 9999), (''message'', JStr ''Other'')]),
        (''id'', JInt 1)])]))) =
     Inl (MCPProtocolError (FromServer (JStr ''Other'')) (JInt 9999) (Data JNull)) \<and>
   exception_class
     (MCPProtocolError (FromServer (JStr ''Prompt not found'')) (JInt 1201) (Data JNull)) =
   exception_class (MCPProtocolError (FromServer (JStr ''Other'')) (JInt 9999) (Data JNull)) \<and>
   exception_class
     (MCPProtocolError (FromServer (JStr ''Resource not found'')) (JInt 1301) (Data JNull)) =
   exception_class (MCPProtocolError (FromServer (JStr ''Other'')) (JInt 9999) (Data JNull))"
  by (simp add: get_prompt_def get_resource_def get_named_result request_params_def
        new_client_def streams_def send_message_def create_request_typed
        dict_get_default_def dict_get_def)

text \<open>
  Claim C4, amended. When the send of \<open>get_prompt\<close> or \<open>get_resource\<close> returns an error
  envelope (no \<^verbatim>\<open>result\<close>, and an \<^verbatim>\<open>error\<close> member that is a mapping), the client raises
  the generic \<^verbatim>\<open>MCPProtocolError\<close>, whose \<^verbatim>\<open>code\<close> attribute is the code of the envelope
  (0 when it has none); the codes 1201 and 1301 are told apart from other codes by this
  attribute only, not by the kind of error.
\<close>

theorem error_envelope_raises_protocol_error_with_code:
  "(fst (send_message ''prompts/get'' (request_params name params) (transport c)) =
      Inr response \<and>
    map_of response ''result'' = None \<and> map_of response ''error'' = Some (JDict error) \<longrightarrow>
      (\<exists>e. fst (get_prompt name params c) = Inl e \<and>
           e = MCPProtocolError
                 (FromServer (dict_get_default error ''message'' (JStr ''Unknown error'')))
                 (dict_get_default error ''code'' (JInt 0))
                 (Data (dict_get error ''data'')) \<and>
           exception_class e = CMCPProtocolError \<and>
           error_code e = Some (dict_get_default error ''code'' (JInt 0)))) \<and>
   (fst (send_message ''resources/get'' (request_params name params) (transport c)) =
      Inr response \<and>
    map_of response ''result'' = None \<and> map_of response ''error'' = Some (JDict error) \<longrightarrow>
      (\<exists>e. fst (get_resource name params c) = Inl e \<and>
           e = MCPProtocolError
                 (FromServer (dict_get_default error ''message'' (JStr ''Unknown error'')))
                 (dict_get_default error ''code'' (JInt 0))
                 (Data (dict_get error ''data'')) \<and>
           exception_class e = CMCPProtocolError \<and>
           error_code e = Some (dict_get_default error ''code'' (JInt 0))))"
  by (simp add: get_prompt_def get_resource_def get_named_result)

theorem error_envelope_raises_protocol_error_with_code_witness:
  "fst (send_message ''prompts/get'' (request_params ''greeting'' None)
     (transport (new_client (streams
        [Parsed (JDict [(''error'', JDict [(''code'', JInt 1201)]), (''id'', JInt 1)])])))) =
     Inr [(''error'', JDict [(''code'', JInt 1201)]), (''id'', JInt 1)] \<and>
   fst (get_prompt ''greeting'' None (new_client (streams
     [Parsed (JDict [(''error'', JDict [(''code'', JInt 1201)]), (''id'', JInt 1)])]))) =
     Inl (MCPProtocolError (FromServer (JStr ''Unknown error'')) (JInt 1201) (Data JNull)) \<and>
   fst (get_resource ''readme'' None (new_client (streams
     [Parsed (JDict [(''error'', JDict [(''code'', JInt 1301)]), (''id'', JInt 1)])]))) =
     Inl (MCPProtocolError (FromServer (JStr ''Unknown error'')) (JInt 1301) (Data JNull))"
proof -
  let ?p = "[(''error'', JDict [(''code'', JInt 1201)]), (''id'', JInt 1)]"
  let ?r = "[(''error'', JDict [(''code'', JInt 1301)]), (''id'', JInt 1)]"
  let ?cp = "new_client (streams [Parsed (JDict ?p)])"
  let ?cr = "new_client (streams [Parsed (JDict ?r)])"
  have sp: "fst (send_message ''prompts/get'' (request_params ''greeting'' None)
              (transport ?cp)) = Inr ?p \<and>
            map_of ?p ''result'' = None \<and>
            map_of ?p ''error'' = Some (JDict [(''code'', JInt 1201)])"
    by (simp add: send_message_result new_client_def streams_def id_matches_def)
  have sr: "fst (send_message ''resources/get'' (request_params ''readme'' None)
              (transport ?cr)) = Inr ?r \<and>
            map_of ?r ''result'' = None \<and>
            map_of ?r ''error'' = Some (JDict [(''code'', JInt 1301)])"
    by (simp add: send_message_result new_client_def streams_def id_matches_def)
  show ?thesis
    using sp sr
      error_envelope_raises_protocol_error_with_code
        [of "''greeting''" None ?cp ?p "[(''code'', JInt 1201)]"]
      error_envelope_raises_protocol_error_with_code
        [of "''readme''" None ?cr ?r "[(''code'', JInt 1301)]"]
    by (simp add: dict_get_default_def dict_get_def)
qed

end
